theory Spec2Isabelle
  imports Complex_Main "HOL-Library.Char_ord" "HOL-Library.Log_Nat"
begin

section \<open>Numbers, strings and errors of the host language\<close>

text \<open>
  The game is written in JavaScript. A value that may be \<open>null\<close> or \<open>undefined\<close> is an
  \<open>option\<close>. The only exception the modelled code can raise is a \<open>TypeError\<close> (reading a
  property of \<open>undefined\<close>).
\<close>

datatype js_error = TypeError

text \<open>
  Every number of the program is a binary64 floating-point value. A finite one is a
  rational, so lives, weights, positions, speeds and times are of type \<open>rat\<close>, and each
  arithmetic operation of the source is the exact operation followed by \<open>fl\<close>, the
  rounding to the nearest binary64 value with ties to the even significand: \<open>a + b\<close> of
  the source is \<open>fl (a + b)\<close> here, and a decimal literal such as \<open>0.03\<close> is \<open>fl (3 / 100)\<close>.
  A literal or result written without \<open>fl\<close> is exactly representable (0.25, 0.5, 10,
  \<open>-noteH\<close>). Comparisons are exact. The score and the difficulty level only ever add
  whole numbers far below \<open>2 ^ 53\<close>, where the arithmetic is exact, and are of type \<open>int\<close>.
  Results of magnitude \<open>2 ^ 1024\<close> or more (\<open>Infinity\<close>) and \<open>NaN\<close> are outside the model.

  \<open>binaryExponent a\<close> is the \<open>e\<close> with \<open>2 ^ e \<le> a < 2 ^ (e + 1)\<close>, for a positive \<open>a\<close>; the
  spacing of the binary64 values around \<open>a\<close> is \<open>2 ^ (e - 52)\<close>, and \<open>2 ^ (- 1074)\<close> for the
  subnormal ones.
\<close>

definition pow2 :: "int \<Rightarrow> rat" where
  "pow2 k = (if 0 \<le> k then 2 ^ nat k else 1 / 2 ^ nat (- k))"

definition binaryExponent :: "rat \<Rightarrow> int" where
  "binaryExponent a =
     (let (p, q) = quotient_of a; k = bitlen p - bitlen q
      in if pow2 k \<le> a then k else k - 1)"

definition roundHalfEven :: "rat \<Rightarrow> int" where
  "roundHalfEven m =
     (let f = \<lfloor>m\<rfloor>; d = m - of_int f
      in if d < 1 / 2 then f else if 1 / 2 < d then f + 1 else if even f then f else f + 1)"

definition fl :: "rat \<Rightarrow> rat" where
  "fl x =
     (if x = 0 then 0
      else
        let a = \<bar>x\<bar>;
            e = max (binaryExponent a) (- 1022);
            q = pow2 (e - 52)
        in sgn x * of_int (roundHalfEven (a / q)) * q)"

section \<open>NoteType.js: the registry of note types\<close>

text \<open>
  The \<open>onCatch\<close> strategy of a note type is a closure over the helper methods of the
  game. Every closure of the registry is a straight sequence of such helper calls on
  \<open>(game, type)\<close>, so a strategy is modelled as the list of calls it makes, in order:
  \<open>AddScore\<close> is \<open>game.addScore(type.score)\<close>, \<open>AddLives\<close> is
  \<open>game.addLives(type.lifeDelta)\<close>, \<open>PlaySfx k\<close> is \<open>game.playSfx(k)\<close>.
\<close>

datatype call = AddScore | AddLives | NotifyDamage | PlaySfx string | CheckGameOver

record note_type =
  type_name :: string
  weight :: rat
  type_score :: int
  lifeDelta :: rat
  onCatch :: "call list"

definition makeNoteType :: "string \<Rightarrow> rat \<Rightarrow> int \<Rightarrow> rat \<Rightarrow> call list \<Rightarrow> note_type" where
  "makeNoteType nm wt sc ld oc =
     \<lparr>type_name = nm, weight = wt, type_score = sc, lifeDelta = ld, onCatch = oc\<rparr>"

definition buildNoteTypes :: "note_type list" where
  "buildNoteTypes =
     [makeNoteType ''A'' (fl (5 / 100)) 100 (1 / 4) [AddScore, AddLives, PlaySfx ''goodA''],
      makeNoteType ''B'' (fl (10 / 100)) 50 0 [AddScore, PlaySfx ''good''],
      makeNoteType ''C'' (fl (15 / 100)) 30 0 [AddScore, PlaySfx ''good''],
      makeNoteType ''D'' (fl (15 / 100)) 20 0 [AddScore, PlaySfx ''good''],
      makeNoteType ''E'' (fl (15 / 100)) 10 0 [AddScore, PlaySfx ''good''],
      makeNoteType ''Fx'' (fl (25 / 100)) 0 (- (1 / 2))
        [AddLives, NotifyDamage, PlaySfx ''bad'', CheckGameOver],
      makeNoteType ''F'' (fl (15 / 100)) 0 (- 1)
        [AddLives, NotifyDamage, PlaySfx ''bad'', CheckGameOver]]"

section \<open>Game.js: weighted selection of a note type\<close>

text \<open>
  \<open>this.totalWeight = this.noteTypes.reduce((acc, t) => acc + t.weight, 0)\<close>, computed
  once by the constructor.
\<close>

definition totalWeightOf :: "note_type list \<Rightarrow> rat" where
  "totalWeightOf ts = foldl (\<lambda>acc t. fl (acc + weight t)) 0 ts"

text \<open>
  The \<open>for ... of\<close> loop of \<open>getRandomNoteType\<close>: \<open>sm\<close> is the running total (the source's \<open>sum\<close>)
  before the entry at the head; \<open>None\<close> when the loop ends without returning.
\<close>

fun scanNoteTypes :: "rat \<Rightarrow> rat \<Rightarrow> note_type list \<Rightarrow> note_type option" where
  "scanNoteTypes r sm [] = None"
| "scanNoteTypes r sm (element # rest) =
     (let sm = fl (sm + weight element)
      in if r < sm then Some element else scanNoteTypes r sm rest)"

text \<open>
  \<open>xs[xs.length - 1]\<close>: the last element, and \<open>undefined\<close> (no exception) when the array
  is empty, since index \<open>-1\<close> is out of range.
\<close>

definition lastEntry :: "'a list \<Rightarrow> 'a option" where
  "lastEntry xs = (if xs = [] then None else Some (xs ! (length xs - 1)))"

text \<open>
  \<open>getRandomNoteType\<close> with the draw made explicit: \<open>rnd\<close> is the value of
  \<open>Math.random()\<close>, \<open>tw\<close> the cached \<open>totalWeight\<close>. The result is \<open>None\<close> when the
  JavaScript returns \<open>undefined\<close>.
\<close>

definition getRandomNoteType :: "rat \<Rightarrow> rat \<Rightarrow> note_type list \<Rightarrow> note_type option" where
  "getRandomNoteType rnd tw noteTypes =
     (let r = fl (rnd * tw) in
      case scanNoteTypes r 0 noteTypes of
        Some element \<Rightarrow> Some element
      | None \<Rightarrow> lastEntry noteTypes)"

text \<open>
  The selection rule in the words of the specification: the cumulative weight of the
  entry at position \<open>i\<close> is what accumulating the weights in registry order, one floating
  point addition per entry, has reached once that entry is added; the pick is the first
  position whose cumulative weight exceeds \<open>r\<close>.
\<close>

definition accumulateWeights :: "rat \<Rightarrow> note_type list \<Rightarrow> rat" where
  "accumulateWeights start ts = foldl (\<lambda>acc t. fl (acc + weight t)) start ts"

definition cumulativeWeight :: "note_type list \<Rightarrow> nat \<Rightarrow> rat" where
  "cumulativeWeight ts i = accumulateWeights 0 (take (Suc i) ts)"

definition firstExceeding :: "rat \<Rightarrow> note_type list \<Rightarrow> nat option" where
  "firstExceeding r ts = List.find (\<lambda>i. r < cumulativeWeight ts i) [0..<length ts]"

section \<open>Strings of the host language\<close>

text \<open>
  \<open>String(n)\<close> for a whole number: its decimal digits, with a leading minus sign for a
  negative one. Session storage keeps strings only, so every number written to it goes
  through this conversion.
\<close>

definition digit_char :: "nat \<Rightarrow> char" where
  "digit_char d = char_of (48 + d)"

function String_of_nat :: "nat \<Rightarrow> string" where
  "String_of_nat n =
     (if n < 10 then [digit_char n] else String_of_nat (n div 10) @ [digit_char (n mod 10)])"
  by pat_completeness auto
termination
  by (relation "measure (\<lambda>n. n)") auto

declare String_of_nat.simps [simp del]

definition String_of :: "int \<Rightarrow> string" where
  "String_of i = (if i < 0 then CHR ''-'' # String_of_nat (nat (- i)) else String_of_nat (nat i))"

text \<open>
  \<open>trim\<close>, \<open>substring(0, 12)\<close> and \<open>toUpperCase\<close> on ASCII text: the white space removed
  is tab, line feed, vertical tab, form feed, carriage return and space; the letters
  raised are \<open>a\<close> to \<open>z\<close>. Characters outside ASCII are left as they are.
\<close>

definition isSpace :: "char \<Rightarrow> bool" where
  "isSpace c = ((of_char c :: nat) \<in> {9, 10, 11, 12, 13, 32})"

definition trim :: "string \<Rightarrow> string" where
  "trim s = rev (dropWhile isSpace (rev (dropWhile isSpace s)))"

definition toUpperCase :: "string \<Rightarrow> string" where
  "toUpperCase s =
     map (\<lambda>c. if 97 \<le> (of_char c :: nat) \<and> (of_char c :: nat) \<le> 122
               then char_of ((of_char c :: nat) - 32) else c) s"

section \<open>cookies.js: session storage\<close>

text \<open>
  \<open>class Player\<close>: one highscore entry. The score of an entry is a number, or a string
  of digits read back from storage; the comparator \<open>b.score - a.score\<close> converts both to
  numbers, so an entry is modelled with the numeric value of its score.
\<close>

record player =
  player_name :: string
  player_score :: int

text \<open>
  \<open>sessionStorage\<close>: \<open>items\<close> maps a key to its string (\<open>None\<close> is \<open>null\<close>). The item
  \<open>"highscores"\<close> holds \<open>JSON.stringify\<close> of an array of players and is only read through
  \<open>JSON.parse\<close>, so it is kept as the array itself, apart from the other keys (no player
  identifier is the string \<open>"highscores"\<close>). \<open>writes\<close> is the history of \<open>setItem\<close> calls
  on \<open>items\<close>, oldest first: it is what an observer of the storage sees happen.
\<close>

record storage =
  items :: "string \<Rightarrow> string option"
  highscores :: "player list option"
  writes :: "(string \<times> string) list"

definition getItem :: "string \<Rightarrow> storage \<Rightarrow> string option" where
  "getItem k st = items st k"

definition setItem :: "string \<Rightarrow> string \<Rightarrow> storage \<Rightarrow> storage" where
  "setItem k v st = st\<lparr>items := (items st)(k \<mapsto> v), writes := writes st @ [(k, v)]\<rparr>"

definition HIGHSCORE_LIMIT :: nat where
  "HIGHSCORE_LIMIT = 10"

definition set_score_session :: "string \<Rightarrow> int \<Rightarrow> storage \<Rightarrow> storage" where
  "set_score_session user score st = setItem (user @ '' score'') (String_of score) st"

text \<open>
  \<open>change_name\<close> asks the player through \<open>prompt\<close>; \<open>answer\<close> is what the dialog returns
  (\<open>None\<close> when it is cancelled).
\<close>

definition change_name :: "string option \<Rightarrow> string \<Rightarrow> storage \<Rightarrow> string \<times> storage" where
  "change_name answer user st =
     (let name = (case answer of
                    None \<Rightarrow> user
                  | Some a \<Rightarrow> if trim a = [] then user else a);
          name = take 12 (trim name)
      in (name, setItem user name st))"

definition get_name :: "string option \<Rightarrow> string \<Rightarrow> storage \<Rightarrow> string \<times> storage" where
  "get_name answer user st =
     (case getItem user st of
        None \<Rightarrow> change_name answer user st
      | Some name \<Rightarrow> (name, st))"

definition get_highscores :: "storage \<Rightarrow> player list" where
  "get_highscores st = (case highscores st of None \<Rightarrow> [] | Some scores \<Rightarrow> scores)"

text \<open>
  \<open>actual.sort(function (a, b) { return b.score - a.score; })\<close>: a stable sort into
  descending order of score. \<open>actual.slice(HIGHSCORE_LIMIT)\<close> returns a new array and
  leaves \<open>actual\<close> as it is; its result is dropped by the source.
\<close>

definition sortByScoreDesc :: "player list \<Rightarrow> player list" where
  "sortByScoreDesc ps = sort_key (\<lambda>p. - player_score p) ps"

definition slice_from :: "nat \<Rightarrow> 'a list \<Rightarrow> 'a list" where
  "slice_from n xs = drop n xs"

definition update_highscores :: "string option \<Rightarrow> string \<Rightarrow> int \<Rightarrow> storage \<Rightarrow> storage" where
  "update_highscores answer user score st =
     (let actual = get_highscores st;
          (name, st1) = get_name answer user st;
          new_player = \<lparr>player_name = name, player_score = score\<rparr>;
          actual = actual @ [new_player];
          actual = sortByScoreDesc actual;
          unused = slice_from HIGHSCORE_LIMIT actual
      in st1\<lparr>highscores := Some actual\<rparr>)"

text \<open>
  \<open>increment_game_state\<close> returns the array \<open>[previous, user, score]\<close>, or \<open>undefined\<close>
  (\<open>None\<close>) when it falls off the end of both branches.
\<close>

definition increment_game_state ::
  "string \<Rightarrow> int \<Rightarrow> storage \<Rightarrow> (bool \<times> string option \<times> string option) option \<times> storage" where
  "increment_game_state user score st =
     (let gameState = getItem ''game_state_boolean'' st;
          st1 = setItem ''game_state_boolean'' ''true'' st
      in if gameState = Some ''false'' then
           (Some (False, None, None),
            setItem ''game_state_score'' (String_of score) (setItem ''game_state_user'' user st1))
         else if gameState = Some ''true'' then
           (Some (True, getItem ''game_state_user'' st1, getItem ''game_state_score'' st1), st1)
         else (None, st1))"

definition release_game_state :: "storage \<Rightarrow> storage" where
  "release_game_state st =
     setItem ''game_state_score'' (String_of 0)
       (setItem ''game_state_user'' []
         (setItem ''game_state_boolean'' ''false'' st))"

section \<open>NoteType.js: a falling note\<close>

text \<open>
  The fields \<open>type\<close>, \<open>w\<close>, \<open>h\<close>, \<open>x\<close>, \<open>y\<close>, \<open>dy\<close> of a \<open>Note\<close> (\<open>ntype\<close> is the field \<open>type\<close>). The type is whatever
  \<open>getRandomNoteType\<close> returned, so it may be \<open>undefined\<close>.
\<close>

record falling_note =
  ntype :: "note_type option"
  note_w :: rat
  note_h :: rat
  note_x :: rat
  note_y :: rat
  note_dy :: rat

text \<open>
  The constructor; \<open>rnd_x\<close> and \<open>rnd_dy\<close> are its two draws of \<open>Math.random()\<close>.
\<close>

definition Note :: "note_type option \<Rightarrow> rat \<Rightarrow> rat \<Rightarrow> rat \<Rightarrow> int \<Rightarrow> rat \<Rightarrow> rat \<Rightarrow> falling_note" where
  "Note type canvasWidth noteW noteH difficultyLevel rnd_x rnd_dy =
     \<lparr>ntype = type, note_w = noteW, note_h = noteH,
      note_x = fl (rnd_x * fl (canvasWidth - noteW)),
      note_y = - noteH,
      note_dy = fl (fl (2 + fl (of_int difficultyLevel / 10)) +
                    fl (rnd_dy * of_int difficultyLevel))\<rparr>"

definition update :: "falling_note \<Rightarrow> falling_note" where
  "update n = n\<lparr>note_y := fl (note_y n + note_dy n)\<rparr>"

definition isOut :: "falling_note \<Rightarrow> rat \<Rightarrow> bool" where
  "isOut n canvasHeight = (note_y n > canvasHeight)"

definition collidesWithRect :: "falling_note \<Rightarrow> rat \<Rightarrow> rat \<Rightarrow> rat \<Rightarrow> rat \<Rightarrow> bool" where
  "collidesWithRect n rx ry rw rh =
     (note_x n < fl (rx + rw) \<and> fl (note_x n + note_w n) > rx \<and>
      note_y n < fl (ry + rh) \<and> fl (note_y n + note_h n) > ry)"

section \<open>Game.js: the state of one engine instance\<close>

text \<open>
  A navigation waiting in \<open>setTimeout\<close>: its delay in milliseconds and the values its
  closure captured (\<open>update\<close>, \<open>myUserFriend\<close>, \<open>myUserFriendScore\<close>). The closure reads
  \<open>this.user\<close> and \<open>this.score\<close> only when it runs.
\<close>

record pending =
  delay :: nat
  p_update :: bool
  p_friend :: "string option"
  p_friendScore :: "string option"

text \<open>
  The fields of \<open>Game\<close> that the simulation reads or writes (\<open>game_notes\<close> is the array
  \<open>this.notes\<close>). \<open>canvasWidth\<close> and
  \<open>canvasHeight\<close> are \<open>this.canvas.width\<close> and \<open>this.canvas.height\<close>; \<open>sfx\<close> lists the keys
  of \<open>this.sfx\<close> that hold an audio object. The last four fields are the instance's
  footprint in the host: \<open>played\<close> the sound cues started so far (oldest first),
  \<open>intervals\<close> the identifiers of the live \<open>setInterval\<close> timers whose callback increments
  this instance's difficulty level, \<open>nextTimerId\<close> the identifier the host hands out next,
  and \<open>timeouts\<close> the navigations scheduled by \<open>setTimeout\<close> that have not run yet.
\<close>

record game =
  numberOfPlayers :: int
  user :: string
  username :: string
  sfx :: "string list"
  noteWidth :: rat
  noteHeight :: rat
  caracterWidth :: rat
  caracterHeight :: rat
  canvasWidth :: rat
  canvasHeight :: rat
  score :: int
  lives :: rat
  gameStarted :: bool
  previewed :: bool
  isGameOver :: bool
  gameOverAlreadyHandled :: bool
  dead :: bool
  rightPressed :: bool
  leftPressed :: bool
  directionToken :: bool
  difficultyLevel :: int
  difficultyIntervalId :: "nat option"
  startPromptBlinkStart :: rat
  livesLostAnimStart :: "rat option"
  livesLostAnimDuration :: rat
  blinkStart :: rat
  deathAnimStart :: "rat option"
  deathAnimDuration :: rat
  game_notes :: "falling_note list"
  caracterX :: rat
  noteTypes :: "note_type list"
  totalWeight :: rat
  played :: "string list"
  intervals :: "nat list"
  nextTimerId :: nat
  timeouts :: "pending list"

text \<open>
  The constructor, from the options it is given (\<open>now\<close> is \<open>performance.now()\<close>). The four
  dimensions have the defaults of the source when the option is absent.
\<close>

definition Game ::
  "rat \<Rightarrow> rat \<Rightarrow> int \<Rightarrow> string \<Rightarrow> string list \<Rightarrow> rat option \<Rightarrow> rat option \<Rightarrow> rat option \<Rightarrow>
   rat option \<Rightarrow> note_type list \<Rightarrow> rat \<Rightarrow> game" where
  "Game cw ch players usr sounds optNoteWidth optNoteHeight optCaracterWidth optCaracterHeight
        types now =
     (let charW = (case optCaracterWidth of None \<Rightarrow> 150 | Some v \<Rightarrow> v) in
      \<lparr>numberOfPlayers = players, user = usr, username = toUpperCase usr, sfx = sounds,
       noteWidth = (case optNoteWidth of None \<Rightarrow> 80 | Some v \<Rightarrow> v),
       noteHeight = (case optNoteHeight of None \<Rightarrow> 80 | Some v \<Rightarrow> v),
       caracterWidth = charW,
       caracterHeight = (case optCaracterHeight of None \<Rightarrow> 250 | Some v \<Rightarrow> v),
       canvasWidth = cw, canvasHeight = ch,
       score = 0, lives = 3,
       gameStarted = False, previewed = False, isGameOver = False,
       gameOverAlreadyHandled = False, dead = False,
       rightPressed = False, leftPressed = False, directionToken = True,
       difficultyLevel = 1, difficultyIntervalId = None,
       startPromptBlinkStart = now, livesLostAnimStart = None, livesLostAnimDuration = 500,
       blinkStart = now, deathAnimStart = None, deathAnimDuration = 1200,
       game_notes = [], caracterX = fl (fl (cw - charW) / 2),
       noteTypes = types, totalWeight = totalWeightOf types,
       played = [], intervals = [], nextTimerId = 1, timeouts = []\<rparr>)"

subsection \<open>The difficulty ramp\<close>

text \<open>
  \<open>setInterval\<close> registers the callback under a fresh identifier; \<open>clearInterval\<close> removes
  the timer with that identifier. \<open>difficultyTick\<close> is what one elapsed period of 5000 ms
  does: every live timer runs its callback \<open>this.difficultyLevel++\<close> once.
\<close>

definition startDifficultyRamp :: "game \<Rightarrow> game" where
  "startDifficultyRamp g =
     (if difficultyIntervalId g \<noteq> None then g
      else g\<lparr>difficultyIntervalId := Some (nextTimerId g),
             intervals := intervals g @ [nextTimerId g],
             nextTimerId := nextTimerId g + 1\<rparr>)"

definition stopDifficultyRamp :: "game \<Rightarrow> game" where
  "stopDifficultyRamp g =
     (case difficultyIntervalId g of
        None \<Rightarrow> g
      | Some ident \<Rightarrow> g\<lparr>intervals := removeAll ident (intervals g),
                          difficultyIntervalId := None\<rparr>)"

definition difficultyTick :: "game \<Rightarrow> game" where
  "difficultyTick g = g\<lparr>difficultyLevel := difficultyLevel g + int (length (intervals g))\<rparr>"

subsection \<open>Audio and the helpers used by the note types\<close>

text \<open>
  \<open>playSfx\<close> returns at once when the key has no audio object; otherwise it starts the
  sound, and any failure of \<open>play\<close> is swallowed by the \<open>try\<close>. What is recorded is that the
  cue was started.
\<close>

definition playSfx :: "string \<Rightarrow> game \<Rightarrow> game" where
  "playSfx key g = (if key \<notin> set (sfx g) then g else g\<lparr>played := played g @ [key]\<rparr>)"

definition addScore :: "int \<Rightarrow> game \<Rightarrow> game" where
  "addScore delta g = g\<lparr>score := score g + delta\<rparr>"

definition addLives :: "rat \<Rightarrow> game \<Rightarrow> game" where
  "addLives delta g = g\<lparr>lives := fl (lives g + delta)\<rparr>"

definition notifyDamage :: "rat \<Rightarrow> game \<Rightarrow> game" where
  "notifyDamage now g = g\<lparr>livesLostAnimStart := Some now\<rparr>"

definition checkGameOver :: "rat \<Rightarrow> game \<Rightarrow> game" where
  "checkGameOver now g =
     (if lives g > 0 then g
      else
        let g1 = g\<lparr>lives := 0, isGameOver := True\<rparr>;
            g2 = (if deathAnimStart g1 = None then g1\<lparr>deathAnimStart := Some now\<rparr> else g1)
        in playSfx ''gameOver'' g2)"

subsection \<open>Restart\<close>

text \<open>
  \<open>resetStateToDefaults\<close> assigns the fields below and nothing else: \<open>previewed\<close>,
  \<open>directionToken\<close> and the timers of the host keep their values. \<open>get_name\<close> may ask for
  a name and write it to storage, so the storage is threaded through.
\<close>

definition resetStateToDefaults ::
  "rat \<Rightarrow> string option \<Rightarrow> game \<Rightarrow> storage \<Rightarrow> game \<times> storage" where
  "resetStateToDefaults now answer g st =
     (let (name, st1) = get_name answer (user g) st
      in (g\<lparr>score := 0, lives := 3,
            username := toUpperCase name,
            gameStarted := False, isGameOver := False,
            gameOverAlreadyHandled := False, dead := False,
            rightPressed := False, leftPressed := False,
            difficultyLevel := 1, difficultyIntervalId := None,
            startPromptBlinkStart := now, livesLostAnimStart := None,
            blinkStart := now, deathAnimStart := None,
            game_notes := [],
            caracterX := fl (fl (canvasWidth g - caracterWidth g) / 2)\<rparr>, st1))"

definition restart :: "rat \<Rightarrow> string option \<Rightarrow> game \<Rightarrow> storage \<Rightarrow> game \<times> storage" where
  "restart now answer g st =
     (let st1 = release_game_state st;
          (g1, st2) = resetStateToDefaults now answer g st1;
          g2 = g1\<lparr>gameStarted := True\<rparr>
      in (startDifficultyRamp g2, st2))"

subsection \<open>The game-over transition\<close>

text \<open>
  \<open>gameOver\<close> indexes the result of \<open>increment_game_state\<close>; when that result is
  \<open>undefined\<close> the read \<open>gameState[0]\<close> raises a \<open>TypeError\<close>.
\<close>

definition gameOver :: "bool \<Rightarrow> game \<Rightarrow> storage \<Rightarrow> js_error + game \<times> storage" where
  "gameOver upd g st =
     (if dead g then Inr (g, st)
      else
        let g1 = g\<lparr>dead := True\<rparr>;
            st1 = set_score_session (user g1) (score g1) st;
            (gameState, st2) = increment_game_state (user g1) (score g1) st1
        in case gameState of
             None \<Rightarrow> Inl TypeError
           | Some (isMyfriendLose, myUserFriend, myUserFriendScore) \<Rightarrow>
               if numberOfPlayers g1 = 1 \<or> isMyfriendLose then
                 Inr (g1\<lparr>timeouts := timeouts g1 @
                        [\<lparr>delay = 2000, p_update = upd, p_friend = myUserFriend,
                          p_friendScore = myUserFriendScore\<rparr>]\<rparr>, st2)
               else Inr (g1, st2))"

text \<open>
  The arguments of one call of \<open>viewHighscores\<close>, and what the delayed callback does when
  its time has come (it then no longer waits): it stops the difficulty ramp and calls
  \<open>viewHighscores\<close> with the global player count of the page (\<open>players\<close>), \<open>direct = true\<close>, and the instance's user
  and score as they are at that moment.
\<close>

record navigation =
  nav_players :: int
  nav_update :: bool
  nav_direct :: bool
  nav_user :: string
  nav_score :: int
  nav_friend :: "string option"
  nav_friendScore :: "string option"

definition runTimeout :: "int \<Rightarrow> pending \<Rightarrow> game \<Rightarrow> game \<times> navigation" where
  "runTimeout players p g =
     (stopDifficultyRamp (g\<lparr>timeouts := remove1 p (timeouts g)\<rparr>),
      \<lparr>nav_players = players, nav_update = p_update p, nav_direct = True,
       nav_user = user g, nav_score = score g,
       nav_friend = p_friend p, nav_friendScore = p_friendScore p\<rparr>)"

definition drawGameOver :: "game \<Rightarrow> storage \<Rightarrow> js_error + game \<times> storage" where
  "drawGameOver g st =
     (if \<not> gameOverAlreadyHandled g then gameOver True (g\<lparr>gameOverAlreadyHandled := True\<rparr>) st
      else Inr (g, st))"

subsection \<open>Spawning and the per-frame updates\<close>

text \<open>
  The inputs of one frame: the clock (\<open>performance.now()\<close>) and the draws of
  \<open>Math.random()\<close> for the spawn test, the note type, and the note's position and speed.
\<close>

record frame =
  f_now :: rat
  f_spawn :: rat
  f_type :: rat
  f_x :: rat
  f_dy :: rat

definition spawnNote :: "frame \<Rightarrow> game \<Rightarrow> game" where
  "spawnNote fr g =
     (let type = getRandomNoteType (f_type fr) (totalWeight g) (noteTypes g);
          n = Note type (canvasWidth g) (noteWidth g) (noteHeight g) (difficultyLevel g)
                (f_x fr) (f_dy fr)
      in g\<lparr>game_notes := game_notes g @ [n]\<rparr>)"

definition updatePlayer :: "game \<Rightarrow> game" where
  "updatePlayer g =
     (if isGameOver g then g
      else
        let step = 10 in
        if directionToken g then
          (if rightPressed g \<and> caracterX g < fl (canvasWidth g - caracterWidth g)
             then g\<lparr>caracterX := fl (caracterX g + step)\<rparr>
           else if leftPressed g \<and> caracterX g > 0
             then g\<lparr>caracterX := fl (caracterX g - step)\<rparr>
           else g)\<lparr>directionToken := False\<rparr>
        else
          (if leftPressed g \<and> caracterX g > 0
             then g\<lparr>caracterX := fl (caracterX g - step)\<rparr>
           else if rightPressed g \<and> caracterX g < fl (canvasWidth g - caracterWidth g)
             then g\<lparr>caracterX := fl (caracterX g + step)\<rparr>
           else g)\<lparr>directionToken := True\<rparr>)"

text \<open>One call of a strategy, and the strategy of a caught note run on the game.\<close>

fun runCall :: "rat \<Rightarrow> note_type \<Rightarrow> game \<Rightarrow> call \<Rightarrow> game" where
  "runCall now t g AddScore = addScore (type_score t) g"
| "runCall now t g AddLives = addLives (lifeDelta t) g"
| "runCall now t g NotifyDamage = notifyDamage now g"
| "runCall now t g (PlaySfx key) = playSfx key g"
| "runCall now t g CheckGameOver = checkGameOver now g"

definition applyCollisionEffects :: "rat \<Rightarrow> falling_note \<Rightarrow> game \<Rightarrow> game" where
  "applyCollisionEffects now n g =
     (case ntype n of
        None \<Rightarrow> g
      | Some t \<Rightarrow> foldl (runCall now t) g (onCatch t))"

text \<open>
  \<open>xs.splice(i, 1)\<close> removes the element at index \<open>i\<close>.

  The loop of \<open>updateNotes\<close> runs \<open>i\<close> from \<open>length - 1\<close> down to \<open>0\<close>; the first argument of
  \<open>updateNotes_from\<close> is \<open>i + 1\<close>, so \<open>0\<close> ends the loop. \<open>n.update()\<close> changes the note in
  its place in the array. Reading an index beyond the array gives \<open>undefined\<close>, on which
  the call \<open>n.update()\<close> raises a \<open>TypeError\<close>.
\<close>

definition splice1 :: "nat \<Rightarrow> 'a list \<Rightarrow> 'a list" where
  "splice1 i xs = take i xs @ drop (Suc i) xs"

fun updateNotes_from ::
  "nat \<Rightarrow> rat \<Rightarrow> rat \<Rightarrow> rat \<Rightarrow> rat \<Rightarrow> rat \<Rightarrow> game \<Rightarrow> js_error + game" where
  "updateNotes_from 0 now paddleX paddleY paddleW paddleH g = Inr g"
| "updateNotes_from (Suc i) now paddleX paddleY paddleW paddleH g =
     (if length (game_notes g) \<le> i then Inl TypeError
      else
        let n = update (game_notes g ! i);
            g1 = g\<lparr>game_notes := (game_notes g)[i := n]\<rparr>
        in if isOut n (canvasHeight g1) then
             updateNotes_from i now paddleX paddleY paddleW paddleH
               (g1\<lparr>game_notes := splice1 i (game_notes g1)\<rparr>)
           else if isGameOver g1 then
             updateNotes_from i now paddleX paddleY paddleW paddleH g1
           else if collidesWithRect n paddleX paddleY paddleW paddleH then
             (let g2 = applyCollisionEffects now n g1
              in updateNotes_from i now paddleX paddleY paddleW paddleH
                   (g2\<lparr>game_notes := splice1 i (game_notes g2)\<rparr>))
           else updateNotes_from i now paddleX paddleY paddleW paddleH g1)"

definition updateNotes :: "rat \<Rightarrow> game \<Rightarrow> js_error + game" where
  "updateNotes now g =
     (let paddleX = caracterX g;
          paddleY = fl (canvasHeight g - caracterHeight g);
          paddleW = caracterWidth g;
          paddleH = caracterHeight g
      in updateNotes_from (length (game_notes g)) now paddleX paddleY paddleW paddleH g)"

subsection \<open>The frame loop\<close>

text \<open>
  Of the drawing code only what touches the state or can fail is kept. \<open>drawNotes\<close> reads
  \<open>this.type.image\<close> of every note, which raises a \<open>TypeError\<close> on a note without a type;
  \<open>drawLives\<close> clears the damage timer once its duration has passed; \<open>drawGameOver\<close>
  triggers the transition.
\<close>

definition drawNotes :: "game \<Rightarrow> js_error + unit" where
  "drawNotes g = (if list_all (\<lambda>n. ntype n \<noteq> None) (game_notes g) then Inr () else Inl TypeError)"

definition drawLives :: "rat \<Rightarrow> game \<Rightarrow> game" where
  "drawLives now g =
     (case livesLostAnimStart g of
        None \<Rightarrow> g
      | Some t \<Rightarrow> if fl (now - t) \<le> livesLostAnimDuration g then g
                  else g\<lparr>livesLostAnimStart := None\<rparr>)"

definition loop :: "frame \<Rightarrow> game \<times> storage \<Rightarrow> js_error + game \<times> storage" where
  "loop fr w =
     (let g = fst w; st = snd w in
      if \<not> gameStarted g \<and> \<not> isGameOver g then Inr (g, st)
      else
        let g1 = (if \<not> isGameOver g \<and> f_spawn fr <
                      fl (fl (3 / 100) + fl (of_int (difficultyLevel g) / 300))
                  then spawnNote fr g else g)
        in case updateNotes (f_now fr) g1 of
             Inl e \<Rightarrow> Inl e
           | Inr g2 \<Rightarrow>
               let g3 = updatePlayer g2 in
               (case drawNotes g3 of
                  Inl e \<Rightarrow> Inl e
                | Inr u \<Rightarrow>
                    let g4 = drawLives (f_now fr) g3 in
                    if isGameOver g4 then drawGameOver g4 st else Inr (g4, st)))"


text \<open>
  \<open>start\<close>: the first call of an instance runs the first frame itself. Attaching the
  input listeners changes nothing modelled here.
\<close>

definition start ::
  "bool \<Rightarrow> string option \<Rightarrow> frame \<Rightarrow> game \<times> storage \<Rightarrow> js_error + game \<times> storage" where
  "start preview answer fr w =
     (let g = fst w; st1 = release_game_state (snd w) in
      case (if \<not> previewed g then
              (case loop fr (g, st1) of
                 Inl e \<Rightarrow> Inl e
               | Inr w' \<Rightarrow> Inr ((fst w')\<lparr>previewed := True\<rparr>, snd w'))
            else Inr (g, st1)) of
        Inl e \<Rightarrow> Inl e
      | Inr w1 \<Rightarrow>
          if \<not> preview then
            let (name, st3) = get_name answer (user (fst w1)) (snd w1);
                g2 = (fst w1)\<lparr>username := toUpperCase name, gameStarted := True\<rparr>
            in Inr (playSfx ''backgroundMusic'' (startDifficultyRamp g2), st3)
          else Inr w1)"

text \<open>
  The player's input over a sequence of frames: each frame first sets the two pressed
  flags as the key and touch handlers left them, then moves the paddle.
\<close>

fun movePlayer :: "(bool \<times> bool) list \<Rightarrow> game \<Rightarrow> game" where
  "movePlayer [] g = g"
| "movePlayer ((l, r) # inputs) g =
     movePlayer inputs (updatePlayer (g\<lparr>leftPressed := l, rightPressed := r\<rparr>))"

section \<open>menu.js: building an engine instance\<close>

text \<open>
  \<open>initialiseGame\<close> builds the instance of a player: the registry of \<open>buildNoteTypes\<close>,
  notes of 80 by 80, a character of 150 by 250, the four sound effects, and background
  music for Player 1 only. The size of the canvas (\<open>cw\<close>, \<open>ch\<close>) comes from the page.
\<close>

definition initialiseGame :: "rat \<Rightarrow> rat \<Rightarrow> string \<Rightarrow> int \<Rightarrow> rat \<Rightarrow> game" where
  "initialiseGame cw ch usr players now =
     Game cw ch players usr
       ((if usr = ''Player 1'' then [''backgroundMusic''] else []) @
        [''goodA'', ''good'', ''bad'', ''gameOver''])
       (Some 80) (Some 80) (Some 150) (Some 250) buildNoteTypes now"

text \<open>A session storage in which nothing has been written yet.\<close>

definition emptySession :: storage where
  "emptySession = \<lparr>items = Map.empty, highscores = None, writes = []\<rparr>"

section \<open>Observing the game-over transition\<close>


text \<open>
  Two states of an instance agree on what the transition reads and guards: the user, the
  player count, the two one-shot flags and the scheduled navigations.
\<close>

definition sameRun :: "game \<Rightarrow> game \<Rightarrow> bool" where
  "sameRun g g' =
     (user g' = user g \<and> numberOfPlayers g' = numberOfPlayers g \<and> dead g' = dead g \<and>
      gameOverAlreadyHandled g' = gameOverAlreadyHandled g \<and> timeouts g' = timeouts g)"


text \<open>
  A frame in which no note spawns, and Player 1's instance in a running single-player
  game with half a life left and one F note (the last entry of the registry) above the
  paddle.
\<close>

definition quietFrame :: frame where
  "quietFrame = \<lparr>f_now = 16, f_spawn = 1 / 2, f_type = 0, f_x = 0, f_dy = 0\<rparr>"


section \<open>A one-note scenario\<close>

text \<open>
  A registry with the single type A of weight 1, worth 100 points and a quarter of a
  life, with the strategy that A has in \<open>buildNoteTypes\<close>; and a running game on a canvas
  of 1000 by 800 whose paddle is as wide as the canvas, with score 0, 3 lives and one
  live A-note at \<open>y = canvasHeight - 1\<close> falling at speed \<open>dy\<close>.
\<close>

definition noteTypeA :: note_type where
  "noteTypeA = makeNoteType ''A'' 1 100 (1 / 4) [AddScore, AddLives, PlaySfx ''goodA'']"

definition scenarioGame :: "rat \<Rightarrow> game" where
  "scenarioGame dy =
     (Game 1000 800 1 ''Player 1'' [''goodA''] None None (Some 1000) None [noteTypeA] 0)
       \<lparr>gameStarted := True,
        game_notes := [\<lparr>ntype = Some noteTypeA, note_w = 80, note_h = 80,
                        note_x = 460, note_y = 799, note_dy = dy\<rparr>]\<rparr>"

section \<open>Rounding is exact on whole numbers\<close>

lemma roundHalfEven_of_int: "roundHalfEven (of_int m) = m"
  by (simp add: roundHalfEven_def Let_def)

lemma binaryExponent_of_int:
  assumes "0 < n"
  shows "binaryExponent (of_int n) = bitlen n - 1"
proof -
  have b: "1 \<le> bitlen n" using assms by (simp add: bitlen_alt_def)
  have "(2::int) ^ nat (bitlen n - 1) \<le> n" using bitlen_bounds [OF assms] by simp
  then have "(of_int ((2::int) ^ nat (bitlen n - 1)) :: rat) \<le> of_int n"
    by (simp only: of_int_le_iff)
  then have "pow2 (bitlen n - 1) \<le> of_int n"
    using b by (simp add: pow2_def)
  moreover have "bitlen 1 = 1" by (simp add: bitlen_alt_def)
  ultimately show ?thesis
    by (simp add: binaryExponent_def Let_def)
qed

lemma fl_of_int_pos:
  assumes "0 < n" "n < 2 ^ 53"
  shows "fl (of_int n) = of_int n"
proof -
  have b1: "1 \<le> bitlen n" using assms(1) by (simp add: bitlen_alt_def)
  have b2: "bitlen n \<le> 53" using assms by (simp add: bitlen_le_iff_power)
  define j where "j = nat (53 - bitlen n)"
  have q: "pow2 (bitlen n - 53) = 1 / 2 ^ j"
    using b1 b2 by (auto simp: pow2_def j_def)
  have m: "\<bar>of_int n :: rat\<bar> / (1 / 2 ^ j) = of_int (n * 2 ^ j)"
    using assms(1) by simp
  have "fl (of_int n) =
          sgn (of_int n :: rat) * of_int (roundHalfEven (\<bar>of_int n\<bar> / (1 / 2 ^ j))) * (1 / 2 ^ j)"
    using assms(1) b1 by (simp add: fl_def Let_def binaryExponent_of_int q max_def)
  also have "\<dots> = of_int n"
    unfolding m roundHalfEven_of_int using assms(1) by simp
  finally show ?thesis .
qed

text \<open>A whole number of magnitude below \<open>2 ^ 53\<close> is a binary64 value.\<close>

lemma fl_of_int:
  assumes "\<bar>n\<bar> < 2 ^ 53"
  shows "fl (of_int n) = of_int n"
proof (cases "n = 0")
  case True
  then show ?thesis by (simp add: fl_def)
next
  case False
  have neg: "fl (- x) = - fl x" for x by (simp add: fl_def Let_def)
  show ?thesis
  proof (cases "0 < n")
    case True
    then show ?thesis using assms fl_of_int_pos by simp
  next
    case n: False
    then have "0 < - n" "- n < 2 ^ 53" using False assms by simp_all
    then have "fl (of_int (- n)) = of_int (- n)" by (rule fl_of_int_pos)
    then show ?thesis using neg [of "of_int n"] by simp
  qed
qed

lemma fl_numeral [simp]:
  "numeral k < (9007199254740992::int) \<Longrightarrow> fl (numeral k) = numeral k"
  using fl_of_int [of "numeral k"] by simp

lemma fl_0 [simp]: "fl 0 = 0"
  by (simp add: fl_def)

lemma fl_1 [simp]: "fl 1 = 1"
  using fl_of_int [of 1] by simp

section \<open>Weighted selection (claim C7)\<close>

lemma find_map_idx: "List.find P (map f xs) = map_option f (List.find (\<lambda>x. P (f x)) xs)"
  by (induction xs) auto

text \<open>
  The loop returns the entry at the first position at which the running total, continued
  from the total it starts with, exceeds \<open>r\<close>.
\<close>

lemma scan_find:
  "scanNoteTypes r s ts =
     map_option (\<lambda>i. ts ! i)
       (List.find (\<lambda>i. r < accumulateWeights s (take (Suc i) ts)) [0..<length ts])"
proof (induction ts arbitrary: s)
  case Nil
  show ?case by simp
next
  case (Cons t ts)
  have upt: "[0..<length (t # ts)] = 0 # map Suc [0..<length ts]"
    by (simp add: upt_conv_Cons map_Suc_upt del: upt_Suc)
  show ?case
    unfolding upt
    by (simp add: Cons.IH accumulateWeights_def find_map_idx comp_def option.map_comp Let_def)
qed

lemma lastEntry_last: "lastEntry xs = (if xs = [] then None else Some (last xs))"
  by (simp add: lastEntry_def last_conv_nth)

text \<open>
  The cached total is the cumulative weight of the last entry, rounding included. So a
  draw below the total of a non-empty registry always finds an entry, and the fallback is
  reached only when \<open>r\<close> is not below the total: on degenerate input, or when the product
  \<open>Math.random() * totalWeight\<close> rounds up to the total.
\<close>

lemma totalWeightOf_cumulative:
  "ts \<noteq> [] \<Longrightarrow> totalWeightOf ts = cumulativeWeight ts (length ts - 1)"
  by (simp add: totalWeightOf_def cumulativeWeight_def accumulateWeights_def)

lemma firstExceeding_exists:
  assumes "ts \<noteq> []" "r < totalWeightOf ts"
  shows "firstExceeding r ts \<noteq> None"
proof -
  have "length ts - 1 \<in> set [0..<length ts]" using assms(1) by simp
  moreover have "r < cumulativeWeight ts (length ts - 1)"
    using assms by (simp add: totalWeightOf_cumulative)
  ultimately show ?thesis
    unfolding firstExceeding_def find_None_iff by blast
qed

text \<open>
  The rounding of the running total is visible on the registry of the game: the draw
  0.45 selects note D, whose cumulative weight is 0.45000000000000007, where the exact
  sums of the weights would select E.
\<close>

lemma registry_roundings:
  "fl (1 / 20) = 3602879701896397 / 72057594037927936"
  "fl (1 / 10) = 3602879701896397 / 36028797018963968"
  "fl (3 / 20) = 5404319552844595 / 36028797018963968"
  "fl (1 / 4) = 1 / 4"
  "fl (3602879701896397 / 72057594037927936) = 3602879701896397 / 72057594037927936"
  "fl (10808639105689191 / 72057594037927936) = 1351079888211149 / 9007199254740992"
  "fl (10808639105689191 / 36028797018963968) = 1351079888211149 / 4503599627370496"
  "fl (16212958658533787 / 36028797018963968) = 4053239664633447 / 9007199254740992"
  "fl (21617278211378383 / 36028797018963968) = 1351079888211149 / 2251799813685248"
  "fl (1914029841632461 / 2251799813685248) = 1914029841632461 / 2251799813685248"
  "fl (36028797018963971 / 36028797018963968) = 1"
  "fl (9 / 20) = 8106479329266893 / 18014398509481984"
  "fl (8106479329266893 / 18014398509481984) = 8106479329266893 / 18014398509481984"
  by code_simp+

lemma production_draw_selects_D:
  "map_option type_name
     (getRandomNoteType (fl (45 / 100)) (totalWeightOf buildNoteTypes) buildNoteTypes) = Some ''D''"
  by (simp add: getRandomNoteType_def totalWeightOf_def buildNoteTypes_def makeNoteType_def
      registry_roundings Let_def)

text \<open>
  Claim C7, as amended. For every registry, every cached total weight and every draw
  (so also a zero or negative total): \<open>getRandomNoteType\<close> returns the first entry, in
  registry order, whose cumulative weight, accumulated in floating point as the program
  does, exceeds \<open>r = Math.random() * totalWeight\<close>; when there is none it returns the last
  entry of a non-empty registry, and \<open>undefined\<close> for the empty registry. It is a total
  function: it always terminates and never raises.
\<close>

theorem getRandomNoteType_selection:
  "getRandomNoteType rnd tw ts =
     (case firstExceeding (fl (rnd * tw)) ts of
        Some i \<Rightarrow> Some (ts ! i)
      | None \<Rightarrow> if ts = [] then None else Some (last ts))"
  using scan_find [of "fl (rnd * tw)" 0 ts]
  by (simp add: getRandomNoteType_def firstExceeding_def cumulativeWeight_def lastEntry_last
      split: option.splits)

text \<open>
  Claim C7 as stated fails on the empty registry: there is no last entry to return, and
  the read \<open>noteTypes[-1]\<close> gives \<open>undefined\<close>.
\<close>

theorem getRandomNoteType_empty_registry:
  "getRandomNoteType 0 (totalWeightOf []) [] = None"
  by (simp add: getRandomNoteType_def lastEntry_def)

section \<open>The highscore list (claim C8)\<close>

lemma update_highscores_list:
  "get_highscores (update_highscores answer usr sc st) =
     sortByScoreDesc (get_highscores st @
       [\<lparr>player_name = fst (get_name answer usr st), player_score = sc\<rparr>])"
  by (simp add: update_highscores_def get_highscores_def get_name_def change_name_def setItem_def
      Let_def split: option.splits prod.splits)

text \<open>Every update makes the persisted list one entry longer, whatever its length.\<close>

lemma update_highscores_length:
  "length (get_highscores (update_highscores answer usr sc st)) = Suc (length (get_highscores st))"
  by (simp add: update_highscores_list sortByScoreDesc_def)

lemma sorted_neg_rev: "sorted (map (\<lambda>p. - f p) xs) \<Longrightarrow> sorted (rev (map (f :: 'a \<Rightarrow> int) xs))"
  by (induction xs) (auto simp: sorted_append)

text \<open>The persisted list is in descending order of score after every update.\<close>

lemma update_highscores_descending:
  "sorted (rev (map player_score (get_highscores (update_highscores answer usr sc st))))"
  unfolding update_highscores_list sortByScoreDesc_def
  by (rule sorted_neg_rev) simp

text \<open>
  Claim C8 (the persisted list has at most 10 entries after every update) against the
  code: an update of a list that already holds 10 entries persists 11, since the result
  of \<open>slice\<close> is dropped. The order part of the claim holds (lemma
  \<open>update_highscores_descending\<close>).
\<close>

theorem update_highscores_exceeds_limit:
  "length (get_highscores
      (update_highscores None ''Player 1'' 50
         \<lparr>items = [''Player 1'' \<mapsto> ''ANNA''],
          highscores = Some (replicate 10 \<lparr>player_name = ''ANNA'', player_score = 100\<rparr>),
          writes = []\<rparr>)) = 11
   \<and> HIGHSCORE_LIMIT < 11"
  unfolding update_highscores_length by (simp add: get_highscores_def HIGHSCORE_LIMIT_def)

section \<open>Paddle movement (claim C9)\<close>

text \<open>Once the game is over the paddle does not move, whatever the input.\<close>

lemma updatePlayer_frozen: "isGameOver g \<Longrightarrow> updatePlayer g = g"
  by (simp add: updatePlayer_def)

lemma movePlayer_frozen: "isGameOver g \<Longrightarrow> caracterX (movePlayer inputs g) = caracterX g"
proof (induction inputs arbitrary: g)
  case Nil
  show ?case by simp
next
  case (Cons a inputs)
  obtain l r where a: "a = (l, r)" by (cases a)
  let ?g = "g\<lparr>leftPressed := l, rightPressed := r\<rparr>"
  have go: "isGameOver ?g" using Cons.prems by simp
  have "caracterX (movePlayer inputs ?g) = caracterX ?g" using Cons.IH [OF go] .
  then show ?case using go by (simp add: a updatePlayer_frozen)
qed

text \<open>
  Claim C9 (after every movement update the paddle lies within
  \<open>[0, canvasWidth - paddleWidth]\<close>) against the code: on the 1000 pixel canvas the
  150 pixel paddle starts at 425; holding the right key for 43 frames brings it to 855,
  beyond the bound 850. The other half of the claim holds (lemmas \<open>updatePlayer_frozen\<close>
  and \<open>movePlayer_frozen\<close>).
\<close>

theorem updatePlayer_leaves_canvas:
  "caracterX (movePlayer (replicate 43 (False, True))
      ((initialiseGame 1000 800 ''Player 1'' 1 0)\<lparr>gameStarted := True\<rparr>)) = 855
   \<and> canvasWidth (initialiseGame 1000 800 ''Player 1'' 1 0)
     - caracterWidth (initialiseGame 1000 800 ''Player 1'' 1 0) = 850"
  by (simp add: initialiseGame_def Game_def updatePlayer_def Let_def eval_nat_numeral)

section \<open>The handshake and the game-over transition (claim C10)\<close>

text \<open>The key of a player's score is none of the three keys of the handshake.\<close>

lemma score_key_neq_boolean [simp]: "u @ '' score'' \<noteq> ''game_state_boolean''"
proof
  assume "u @ '' score'' = ''game_state_boolean''"
  then have "last (u @ '' score'') = last ''game_state_boolean''" by simp
  then show False by simp
qed

lemma score_key_neq_user [simp]: "u @ '' score'' \<noteq> ''game_state_user''"
proof
  assume "u @ '' score'' = ''game_state_user''"
  then have "last (u @ '' score'') = last ''game_state_user''" by simp
  then show False by simp
qed

lemma score_key_neq_score [simp]: "u @ '' score'' \<noteq> ''game_state_score''"
proof
  assume eq: "u @ '' score'' = ''game_state_score''"
  then have "length (u @ '' score'') = length ''game_state_score''" by simp
  then have len: "length u = 10" by simp
  from eq have "drop 10 (u @ '' score'') = drop 10 ''game_state_score''" by simp
  then show False using len by simp
qed

lemma flag_after_set_score [simp]:
  "getItem ''game_state_boolean'' (set_score_session u s st) = getItem ''game_state_boolean'' st"
  by (simp add: set_score_session_def setItem_def getItem_def)

lemma increment_game_state_result:
  "fst (increment_game_state u s st) =
     (if getItem ''game_state_boolean'' st = Some ''false'' then Some (False, None, None)
      else if getItem ''game_state_boolean'' st = Some ''true''
        then Some (True, getItem ''game_state_user'' st, getItem ''game_state_score'' st)
      else None)"
  by (simp add: increment_game_state_def Let_def getItem_def setItem_def)

lemma release_flag [simp]: "getItem ''game_state_boolean'' (release_game_state st) = Some ''false''"
  by (simp add: release_game_state_def getItem_def setItem_def)

text \<open>\<open>gameOver\<close> without its local bindings.\<close>

lemma gameOver_unfold:
  "gameOver upd g st =
     (if dead g then Inr (g, st)
      else case fst (increment_game_state (user g) (score g)
                      (set_score_session (user g) (score g) st)) of
             None \<Rightarrow> Inl TypeError
           | Some t \<Rightarrow>
               Inr (if numberOfPlayers g = 1 \<or> fst t
                    then g\<lparr>dead := True,
                           timeouts := timeouts g @
                             [\<lparr>delay = 2000, p_update = upd, p_friend = fst (snd t),
                               p_friendScore = snd (snd t)\<rparr>]\<rparr>
                    else g\<lparr>dead := True\<rparr>,
                    snd (increment_game_state (user g) (score g)
                           (set_score_session (user g) (score g) st))))"
  by (simp add: gameOver_def Let_def split_beta split: option.splits)

lemma gameOver_returns_iff:
  "\<not> dead g \<Longrightarrow>
     (\<exists>w. gameOver upd g st = Inr w) =
     (getItem ''game_state_boolean'' st = Some ''true'' \<or>
      getItem ''game_state_boolean'' st = Some ''false'')"
  by (auto simp: gameOver_unfold increment_game_state_result)

lemma gameOver_raises:
  "\<not> dead g \<Longrightarrow> getItem ''game_state_boolean'' st = None \<Longrightarrow> gameOver upd g st = Inl TypeError"
  by (simp add: gameOver_unfold increment_game_state_result)

text \<open>
  Claim C10. \<open>increment_game_state\<close> returns its three-element array exactly when the
  stored flag is the string \<open>"true"\<close> or \<open>"false"\<close>. When the flag was never written
  (\<open>getItem\<close> gives \<open>null\<close>) it returns \<open>undefined\<close>, and \<open>gameOver\<close> on an instance that is
  not yet dead raises a \<open>TypeError\<close>. Such an instance completes \<open>gameOver\<close> exactly when
  the flag is one of the two strings; \<open>release_game_state\<close>, the first statement of
  \<open>start\<close> and of \<open>restart\<close>, sets the flag to \<open>"false"\<close>, after which \<open>gameOver\<close> completes.
\<close>

theorem gameOver_needs_released_state:
  "((\<exists>t. fst (increment_game_state u s st) = Some t) =
      (getItem ''game_state_boolean'' st = Some ''true'' \<or>
       getItem ''game_state_boolean'' st = Some ''false''))
   \<and> (getItem ''game_state_boolean'' st = None \<longrightarrow>
        fst (increment_game_state u s st) = None \<and>
        (\<not> dead g \<longrightarrow> gameOver upd g st = Inl TypeError))
   \<and> (\<not> dead g \<longrightarrow>
        (\<exists>w. gameOver upd g st = Inr w) =
        (getItem ''game_state_boolean'' st = Some ''true'' \<or>
         getItem ''game_state_boolean'' st = Some ''false''))
   \<and> getItem ''game_state_boolean'' (release_game_state st) = Some ''false''
   \<and> (\<exists>w. gameOver upd g (release_game_state st) = Inr w)"
proof -
  have a: "(\<exists>t. fst (increment_game_state u s st) = Some t) =
      (getItem ''game_state_boolean'' st = Some ''true'' \<or>
       getItem ''game_state_boolean'' st = Some ''false'')"
    by (auto simp: increment_game_state_result)
  have b: "getItem ''game_state_boolean'' st = None \<longrightarrow>
        fst (increment_game_state u s st) = None \<and>
        (\<not> dead g \<longrightarrow> gameOver upd g st = Inl TypeError)"
    by (simp add: increment_game_state_result gameOver_raises)
  have c: "\<not> dead g \<longrightarrow>
        (\<exists>w. gameOver upd g st = Inr w) =
        (getItem ''game_state_boolean'' st = Some ''true'' \<or>
         getItem ''game_state_boolean'' st = Some ''false'')"
    using gameOver_returns_iff [of g upd st] by blast
  have e: "\<exists>w. gameOver upd g (release_game_state st) = Inr w"
  proof (cases "dead g")
    case True
    then show ?thesis by (simp add: gameOver_def)
  next
    case False
    then show ?thesis
      using gameOver_returns_iff [of g upd "release_game_state st"] release_flag [of st] by blast
  qed
  show ?thesis using a b c e release_flag [of st] by blast
qed

text \<open>
  Witness for C10: a fresh session, and the instance of Player 1 as it is built. Before
  any \<open>release_game_state\<close> the handshake gives \<open>undefined\<close> and \<open>gameOver\<close> raises; after it
  \<open>gameOver\<close> completes.
\<close>

theorem gameOver_needs_released_state_witness:
  "getItem ''game_state_boolean'' emptySession = None
   \<and> \<not> dead (initialiseGame 1000 800 ''Player 1'' 1 0)
   \<and> fst (increment_game_state ''Player 1'' 0 emptySession) = None
   \<and> gameOver True (initialiseGame 1000 800 ''Player 1'' 1 0) emptySession = Inl TypeError
   \<and> (\<exists>w. gameOver True (initialiseGame 1000 800 ''Player 1'' 1 0)
             (release_game_state emptySession) = Inr w)"
proof -
  have flag: "getItem ''game_state_boolean'' emptySession = None"
    by (simp add: getItem_def emptySession_def)
  have alive: "\<not> dead (initialiseGame 1000 800 ''Player 1'' 1 0)"
    by (simp add: initialiseGame_def Game_def)
  show ?thesis
    using flag alive
      gameOver_needs_released_state
        [of "''Player 1''" 0 emptySession "initialiseGame 1000 800 ''Player 1'' 1 0" True]
    by blast
qed

section \<open>Restart and the difficulty ticker (claim C2)\<close>

text \<open>The resets that the claim lists do happen.\<close>

lemma restart_resets:
  "score (fst (restart now answer g st)) = 0 \<and>
   lives (fst (restart now answer g st)) = 3 \<and>
   game_notes (fst (restart now answer g st)) = [] \<and>
   gameStarted (fst (restart now answer g st))"
  by (simp add: restart_def resetStateToDefaults_def startDifficultyRamp_def Let_def split_beta)

text \<open>
  No timer is ever cleared by \<open>restart\<close>: \<open>resetStateToDefaults\<close> forgets the identifier
  without calling \<open>clearInterval\<close>, and \<open>startDifficultyRamp\<close> then adds a new timer to the
  ones that are still live.
\<close>

lemma restart_keeps_old_ticker:
  "intervals (fst (restart now answer g st)) = intervals g @ [nextTimerId g] \<and>
   difficultyIntervalId (fst (restart now answer g st)) = Some (nextTimerId g)"
  by (simp add: restart_def resetStateToDefaults_def startDifficultyRamp_def Let_def split_beta)

text \<open>
  Claim C2 (restart cancels the running difficulty ticker before starting a new one, so
  the level rises at most once per 5 second interval) against the code, along the path
  of a two-player game: both instances are started, which creates timer 1 in each;
  Player 1 loses first and schedules nothing, so nothing ever stops its timer; Player 2
  loses second and its delayed callback stops its own timer only. Player 1's instance is
  then restarted: timers 1 and 2 are both live on it, and one elapsed interval raises its
  level from 1 to 3. The resets of score, lives and notes hold (lemma \<open>restart_resets\<close>).
\<close>

theorem restart_doubles_ticker:
  "(case start False (Some ''ANNA'') quietFrame
          (initialiseGame 900 800 ''Player 1'' 2 0, emptySession) of
      Inl e \<Rightarrow> False
    | Inr wA \<Rightarrow>
       (case start False (Some ''BOB'') quietFrame
               (initialiseGame 1000 800 ''Player 2'' 2 0, snd wA) of
          Inl e \<Rightarrow> False
        | Inr wB \<Rightarrow>
           (case gameOver True (fst wA) (snd wB) of
              Inl e \<Rightarrow> False
            | Inr wA' \<Rightarrow>
               (case gameOver True (fst wB) (snd wA') of
                  Inl e \<Rightarrow> False
                | Inr wB' \<Rightarrow>
                    timeouts (fst wA') = [] \<and>
                    intervals (fst wA') = [1] \<and>
                    length (timeouts (fst wB')) = 1 \<and>
                    intervals (fst (runTimeout 2 (hd (timeouts (fst wB'))) (fst wB'))) = [] \<and>
                    intervals (fst (restart 5000 None (fst wA') (snd wB'))) = [1, 2] \<and>
                    difficultyLevel (fst (restart 5000 None (fst wA') (snd wB'))) = 1 \<and>
                    difficultyLevel
                      (difficultyTick (fst (restart 5000 None (fst wA') (snd wB')))) = 3))))"
  by (simp add: start_def loop_def quietFrame_def initialiseGame_def Game_def emptySession_def
      release_game_state_def setItem_def getItem_def get_name_def change_name_def trim_def
      isSpace_def toUpperCase_def startDifficultyRamp_def stopDifficultyRamp_def playSfx_def
      gameOver_def increment_game_state_def set_score_session_def runTimeout_def
      restart_def resetStateToDefaults_def difficultyTick_def Let_def split_beta)

section \<open>The per-frame note update after game over (claim C6)\<close>

text \<open>
  In a game that is over, the loop from index \<open>k - 1\<close> down to \<open>0\<close> moves the first \<open>k\<close>
  notes, drops those that left the canvas, and touches nothing else. The index is always
  within the array, so no read fails.
\<close>

lemma updateNotes_from_game_over:
  "isGameOver g \<Longrightarrow> k \<le> length (game_notes g) \<Longrightarrow>
     updateNotes_from k now px py pw ph g =
       Inr (g\<lparr>game_notes := filter (\<lambda>n. \<not> isOut n (canvasHeight g)) (map update (take k (game_notes g)))
                              @ drop k (game_notes g)\<rparr>)"
proof (induction k arbitrary: g)
  case 0
  show ?case by simp
next
  case (Suc i)
  let ?xs = "game_notes g"
  let ?n = "update (?xs ! i)"
  have i: "i < length ?xs" using Suc.prems(2) by simp
  have tk: "take (Suc i) ?xs = take i ?xs @ [?xs ! i]"
    using i by (simp add: take_Suc_conv_app_nth)
  show ?case
  proof (cases "isOut ?n (canvasHeight g)")
    case True
    let ?g' = "g\<lparr>game_notes := splice1 i (?xs[i := ?n])\<rparr>"
    have sp: "splice1 i (?xs[i := ?n]) = take i ?xs @ drop (Suc i) ?xs"
      by (simp add: splice1_def)
    have "updateNotes_from i now px py pw ph ?g' =
            Inr (?g'\<lparr>game_notes := filter (\<lambda>n. \<not> isOut n (canvasHeight ?g'))
                     (map update (take i (game_notes ?g'))) @ drop i (game_notes ?g')\<rparr>)"
      using Suc.prems i by (intro Suc.IH) (simp_all add: sp)
    then show ?thesis
      using True i by (simp add: sp tk Let_def)
  next
    case False
    let ?g' = "g\<lparr>game_notes := ?xs[i := ?n]\<rparr>"
    have "updateNotes_from i now px py pw ph ?g' =
            Inr (?g'\<lparr>game_notes := filter (\<lambda>n. \<not> isOut n (canvasHeight ?g'))
                     (map update (take i (game_notes ?g'))) @ drop i (game_notes ?g')\<rparr>)"
      using Suc.prems i by (intro Suc.IH) simp_all
    then show ?thesis
      using False i Suc.prems(1)
      by (simp add: tk Let_def drop_update_cancel Cons_nth_drop_Suc[symmetric]
          upd_conv_take_nth_drop)
  qed
qed

lemma updateNotes_when_over:
  "isGameOver g \<Longrightarrow>
     updateNotes now g =
       Inr (g\<lparr>game_notes := filter (\<lambda>n. \<not> isOut n (canvasHeight g)) (map update (game_notes g))\<rparr>)"
  by (simp add: updateNotes_def Let_def updateNotes_from_game_over)

text \<open>
  Claim C6. Once \<open>isGameOver\<close> is set, one call of \<open>updateNotes\<close> returns normally and
  changes the array of notes only: every note has fallen by its speed, the notes now
  below the canvas are gone, the others are kept in their order whether or not they
  overlap the paddle; score, lives and every other field are as before.
\<close>

theorem updateNotes_game_over:
  "isGameOver g \<Longrightarrow>
     updateNotes now g =
       Inr (g\<lparr>game_notes := filter (\<lambda>n. \<not> isOut n (canvasHeight g)) (map update (game_notes g))\<rparr>)"
  by (rule updateNotes_when_over)

lemma fl_1599_2: "fl (1599 / 2) = 1599 / 2"
  by code_simp

lemma fl_1759_2: "fl (1759 / 2) = 1759 / 2"
  by code_simp

text \<open>
  Witness for C6: the one-note scenario after game over, with a second note about to
  leave. The first note overlaps the paddle after its move and yet stays in the array
  uncaught; the second is pruned.
\<close>

theorem updateNotes_game_over_witness:
  "isGameOver ((scenarioGame (1 / 2))\<lparr>isGameOver := True\<rparr>)
   \<and> collidesWithRect
        \<lparr>ntype = Some noteTypeA, note_w = 80, note_h = 80, note_x = 460, note_y = 1599 / 2,
         note_dy = 1 / 2\<rparr> 0 550 1000 250
   \<and> updateNotes 0
        ((scenarioGame (1 / 2))
           \<lparr>isGameOver := True,
            game_notes := game_notes (scenarioGame (1 / 2)) @
              [\<lparr>ntype = Some noteTypeA, note_w = 80, note_h = 80, note_x = 10, note_y = 799,
                note_dy = 3\<rparr>]\<rparr>) =
       Inr ((scenarioGame (1 / 2))
              \<lparr>isGameOver := True,
               game_notes :=
                 [\<lparr>ntype = Some noteTypeA, note_w = 80, note_h = 80, note_x = 460,
                   note_y = 1599 / 2, note_dy = 1 / 2\<rparr>]\<rparr>)"
  using updateNotes_game_over
    [of "(scenarioGame (1 / 2))
           \<lparr>isGameOver := True,
            game_notes := game_notes (scenarioGame (1 / 2)) @
              [\<lparr>ntype = Some noteTypeA, note_w = 80, note_h = 80, note_x = 10, note_y = 799,
                note_dy = 3\<rparr>]\<rparr>" 0]
  by (simp add: scenarioGame_def Game_def isOut_def update_def collidesWithRect_def
      fl_1599_2 fl_1759_2)

section \<open>Entering game over (claim C1)\<close>











section \<open>Catching a note at the bottom edge (claim C5)\<close>



text \<open>
  The slowest note the constructor builds at difficulty level 1 falls by the binary64
  value of 2.1 per frame, more than one pixel.
\<close>

lemma Note_slowest_speed:
  "note_dy (Note ty 1000 80 80 1 0 0) = 4728779608739021 / 2251799813685248
   \<and> 1 < note_dy (Note ty 1000 80 80 1 0 0)"
proof -
  have "fl (fl (2 + fl (1 / 10)) + fl 0) = 4728779608739021 / 2251799813685248"
    by code_simp
  then show ?thesis by (simp add: Note_def)
qed







section \<open>The one-shot transition across frames (claim C4)\<close>


lemma sameRun_refl [simp]: "sameRun g g"
  by (simp add: sameRun_def)


lemma sameRun_notes [simp]: "sameRun g (g'\<lparr>game_notes := ns\<rparr>) = sameRun g g'"
  by (simp add: sameRun_def)

lemma sameRun_notes_left [simp]: "sameRun (g\<lparr>game_notes := ns\<rparr>) g' = sameRun g g'"
  by (simp add: sameRun_def)









lemma score_key_neq_boolean' [simp]: "''game_state_boolean'' \<noteq> u @ '' score''"
  using score_key_neq_boolean [of u] by (rule not_sym)

lemma score_key_neq_user' [simp]: "''game_state_user'' \<noteq> u @ '' score''"
  using score_key_neq_user [of u] by (rule not_sym)

lemma score_key_neq_score' [simp]: "''game_state_score'' \<noteq> u @ '' score''"
  using score_key_neq_score [of u] by (rule not_sym)














section \<open>The two-player handshake (claim C3)\<close>

lemma getItem_set_score_session:
  "getItem k (set_score_session u s st) =
     (if k = u @ '' score'' then Some (String_of s) else getItem k st)"
  by (simp add: set_score_session_def setItem_def getItem_def)

lemma getItem_increment_game_state:
  "getItem k (snd (increment_game_state u s st)) =
     (if getItem ''game_state_boolean'' st = Some ''false'' then
        (if k = ''game_state_score'' then Some (String_of s)
         else if k = ''game_state_user'' then Some u
         else if k = ''game_state_boolean'' then Some ''true''
         else getItem k st)
      else if k = ''game_state_boolean'' then Some ''true'' else getItem k st)"
  by (simp add: increment_game_state_def Let_def setItem_def getItem_def)

text \<open>
  Claim C3. In a two-player run that began with \<open>release_game_state\<close>, the first instance
  to call \<open>gameOver\<close> reads the handshake as inactive, leaves the flag set with its own
  user and score (as a string) recorded, and schedules no navigation; the second instance
  reads the handshake as active together with the first one's user and score, and
  schedules the navigation with a delay of 2000 ms; when that callback runs it calls
  \<open>viewHighscores\<close> with its own user and score and the first one's user and score. In
  single-player mode the navigation is scheduled, with the same delay, whichever of the
  two values the flag has.
\<close>

theorem two_player_handshake:
  assumes "numberOfPlayers gA = 2" "\<not> dead gA" "numberOfPlayers gB = 2" "\<not> dead gB"
    and "numberOfPlayers g1 = 1" "\<not> dead g1"
    and "getItem ''game_state_boolean'' s1 = Some ''true'' \<or>
         getItem ''game_state_boolean'' s1 = Some ''false''"
  shows "\<exists>st1 st2.
      fst (increment_game_state (user gA) (score gA)
            (set_score_session (user gA) (score gA) (release_game_state st)))
        = Some (False, None, None)
    \<and> gameOver updA gA (release_game_state st) = Inr (gA\<lparr>dead := True\<rparr>, st1)
    \<and> getItem ''game_state_boolean'' st1 = Some ''true''
    \<and> getItem ''game_state_user'' st1 = Some (user gA)
    \<and> getItem ''game_state_score'' st1 = Some (String_of (score gA))
    \<and> fst (increment_game_state (user gB) (score gB)
            (set_score_session (user gB) (score gB) st1))
        = Some (True, Some (user gA), Some (String_of (score gA)))
    \<and> gameOver updB gB st1 =
        Inr (gB\<lparr>dead := True,
                timeouts := timeouts gB @
                  [\<lparr>delay = 2000, p_update = updB, p_friend = Some (user gA),
                    p_friendScore = Some (String_of (score gA))\<rparr>]\<rparr>, st2)
    \<and> snd (runTimeout players
             \<lparr>delay = 2000, p_update = updB, p_friend = Some (user gA),
               p_friendScore = Some (String_of (score gA))\<rparr>
             (gB\<lparr>dead := True,
                timeouts := timeouts gB @
                  [\<lparr>delay = 2000, p_update = updB, p_friend = Some (user gA),
                    p_friendScore = Some (String_of (score gA))\<rparr>]\<rparr>))
        = \<lparr>nav_players = players, nav_update = updB, nav_direct = True,
           nav_user = user gB, nav_score = score gB,
           nav_friend = Some (user gA), nav_friendScore = Some (String_of (score gA))\<rparr>
    \<and> (\<exists>p st'. gameOver upd g1 s1 = Inr (g1\<lparr>dead := True, timeouts := timeouts g1 @ [p]\<rparr>, st')
          \<and> delay p = 2000 \<and> p_update p = upd)"
proof -
  let ?st0 = "release_game_state st"
  let ?st1 = "snd (increment_game_state (user gA) (score gA)
                     (set_score_session (user gA) (score gA) ?st0))"
  let ?st2 = "snd (increment_game_state (user gB) (score gB)
                     (set_score_session (user gB) (score gB) ?st1))"
  have readA: "fst (increment_game_state (user gA) (score gA)
            (set_score_session (user gA) (score gA) ?st0)) = Some (False, None, None)"
    by (simp add: increment_game_state_result)
  have goA: "gameOver updA gA ?st0 = Inr (gA\<lparr>dead := True\<rparr>, ?st1)"
    using assms(1,2) by (simp add: gameOver_unfold readA)
  have flag1: "getItem ''game_state_boolean'' ?st1 = Some ''true''"
    by (simp add: getItem_increment_game_state)
  have user1: "getItem ''game_state_user'' ?st1 = Some (user gA)"
    by (simp add: getItem_increment_game_state)
  have score1: "getItem ''game_state_score'' ?st1 = Some (String_of (score gA))"
    by (simp add: getItem_increment_game_state)
  have readB: "fst (increment_game_state (user gB) (score gB)
            (set_score_session (user gB) (score gB) ?st1))
        = Some (True, Some (user gA), Some (String_of (score gA)))"
    using flag1 user1 score1
    by (simp add: increment_game_state_result getItem_set_score_session)
  have goB: "gameOver updB gB ?st1 =
        Inr (gB\<lparr>dead := True,
                timeouts := timeouts gB @
                  [\<lparr>delay = 2000, p_update = updB, p_friend = Some (user gA),
                    p_friendScore = Some (String_of (score gA))\<rparr>]\<rparr>, ?st2)"
    using assms(4) by (simp add: gameOver_unfold readB)
  have nav: "snd (runTimeout players
             \<lparr>delay = 2000, p_update = updB, p_friend = Some (user gA),
               p_friendScore = Some (String_of (score gA))\<rparr>
             (gB\<lparr>dead := True,
                timeouts := timeouts gB @
                  [\<lparr>delay = 2000, p_update = updB, p_friend = Some (user gA),
                    p_friendScore = Some (String_of (score gA))\<rparr>]\<rparr>))
        = \<lparr>nav_players = players, nav_update = updB, nav_direct = True,
           nav_user = user gB, nav_score = score gB,
           nav_friend = Some (user gA), nav_friendScore = Some (String_of (score gA))\<rparr>"
    by (simp add: runTimeout_def)
  have single: "\<exists>p st'. gameOver upd g1 s1 = Inr (g1\<lparr>dead := True, timeouts := timeouts g1 @ [p]\<rparr>, st')
          \<and> delay p = 2000 \<and> p_update p = upd"
  proof -
    let ?t = "fst (increment_game_state (user g1) (score g1)
                     (set_score_session (user g1) (score g1) s1))"
    let ?p = "\<lparr>delay = 2000, p_update = upd, p_friend = fst (snd (the ?t)),
               p_friendScore = snd (snd (the ?t))\<rparr>"
    have "?t \<noteq> None" using assms(7) by (auto simp: increment_game_state_result)
    then have "gameOver upd g1 s1 =
        Inr (g1\<lparr>dead := True, timeouts := timeouts g1 @ [?p]\<rparr>,
             snd (increment_game_state (user g1) (score g1)
                    (set_score_session (user g1) (score g1) s1)))"
      using assms(5,6) by (auto simp: gameOver_unfold)
    moreover have "delay ?p = 2000 \<and> p_update ?p = upd" by simp
    ultimately show ?thesis by blast
  qed
  show ?thesis
    by (rule exI [of _ ?st1], rule exI [of _ ?st2])
       (intro conjI readA goA flag1 user1 score1 readB goB nav single)
qed

lemma String_of_150: "String_of 150 = ''150''"
  by code_simp

text \<open>
  Witness for C3: Player 1 loses first with 150 points, Player 2 second with 80; and a
  single-player instance of Player 1.
\<close>

theorem two_player_handshake_witness:
  "\<exists>st1 st2.
      gameOver True ((initialiseGame 900 800 ''Player 1'' 2 0)\<lparr>score := 150\<rparr>)
          (release_game_state emptySession)
        = Inr ((initialiseGame 900 800 ''Player 1'' 2 0)\<lparr>score := 150, dead := True\<rparr>, st1)
    \<and> getItem ''game_state_boolean'' st1 = Some ''true''
    \<and> getItem ''game_state_user'' st1 = Some ''Player 1''
    \<and> getItem ''game_state_score'' st1 = Some ''150''
    \<and> gameOver True ((initialiseGame 1000 800 ''Player 2'' 2 0)\<lparr>score := 80\<rparr>) st1 =
        Inr ((initialiseGame 1000 800 ''Player 2'' 2 0)
               \<lparr>score := 80, dead := True,
                timeouts := [\<lparr>delay = 2000, p_update = True, p_friend = Some ''Player 1'',
                              p_friendScore = Some ''150''\<rparr>]\<rparr>, st2)
    \<and> (\<exists>p st'. gameOver True (initialiseGame 1000 800 ''Player 1'' 1 0)
                  (release_game_state emptySession) =
                Inr ((initialiseGame 1000 800 ''Player 1'' 1 0)\<lparr>dead := True, timeouts := [p]\<rparr>, st')
          \<and> delay p = 2000)"
proof -
  let ?gA = "(initialiseGame 900 800 ''Player 1'' 2 0)\<lparr>score := 150\<rparr>"
  let ?gB = "(initialiseGame 1000 800 ''Player 2'' 2 0)\<lparr>score := 80\<rparr>"
  let ?g1 = "initialiseGame 1000 800 ''Player 1'' 1 0"
  have a: "numberOfPlayers ?gA = 2" "\<not> dead ?gA" "numberOfPlayers ?gB = 2" "\<not> dead ?gB"
    "numberOfPlayers ?g1 = 1" "\<not> dead ?g1"
    by (simp_all add: initialiseGame_def Game_def)
  have flag: "getItem ''game_state_boolean'' (release_game_state emptySession) = Some ''true'' \<or>
         getItem ''game_state_boolean'' (release_game_state emptySession) = Some ''false''"
    by simp
  have facts: "user ?gA = ''Player 1''" "score ?gA = 150" "timeouts ?gB = []" "timeouts ?g1 = []"
    by (simp_all add: initialiseGame_def Game_def)
  show ?thesis
    using two_player_handshake [OF a flag, where updA = True and st = emptySession
        and updB = True and players = 2 and upd = True]
    unfolding facts String_of_150
    by (simp only: append_Nil) (simp, blast)
qed

end
